theory Spec2Isabelle
  imports Main "HOL-Library.AList"
begin

section \<open>Alert.tizen.js: the cross-platform alert dispatcher and its adapters\<close>

text \<open>
  The module \<^verbatim>\<open>Alert\<close> holds four classes with one static method each:
  \<^verbatim>\<open>Alert.alert\<close> (the dispatcher, lines 86-106), \<^verbatim>\<open>AlertAndroid.alert\<close>
  (lines 114-154), \<^verbatim>\<open>AlertWindows.alert\<close> (lines 162-196) and \<^verbatim>\<open>AlertTizen.alert\<close>
  (lines 205-252). Each adapter makes exactly one call,
  \<^verbatim>\<open>DialogModuleX.showAlert(config, errorCallback, resultCallback)\<close>; the model of an
  adapter returns the three arguments of that call, the two callbacks as functions, so
  that what the native service may later do with them is a function application.

  JavaScript values are modelled by their Flow types: a \<^verbatim>\<open>?string\<close> or an optional
  field is an \<open>option\<close> (\<open>None\<close> is \<^verbatim>\<open>undefined\<close> or \<^verbatim>\<open>null\<close>), an array is a
  list, an object literal with computed keys is an association list in insertion order,
  and \<^verbatim>\<open>===\<close> on the service's constants is equality.

  The collaborators of the module (\<^verbatim>\<open>console\<close>, \<^verbatim>\<open>AlertIOS\<close>, the dialog services)
  are not code of this module: a call to one of them is recorded as an effect. A
  caller's \<^verbatim>\<open>onPress\<close> function is called by the module's own result callback, with
  no \<^verbatim>\<open>try\<close> around the call, so whether that call returns or throws decides how the
  callback ends, and it is part of the model.
\<close>

subsection \<open>Data\<close>

text \<open>
  Modelled from the spec: the type \<^verbatim>\<open>AlertButtonStyle\<close> is imported from
  \<^verbatim>\<open>AlertIOS\<close>, which is not part of the source at hand; the spec gives it as the
  enumerated tag default, cancel, destructive. No adapter reads it.
\<close>

datatype AlertButtonStyle = Style_default | Style_cancel | Style_destructive

text \<open>
  A function supplied by the caller, as far as this module can observe it: which
  function it is (a value of a type \<open>'f\<close>) and whether a call to it returns or throws.
\<close>

datatype 'f js_function = fn_returns 'f | fn_throws 'f

text \<open>The element type of \<^verbatim>\<open>Buttons\<close> (lines 22-26); all three fields are optional.\<close>

record 'f ButtonSpec =
  "text" :: "string option"
  onPress :: "'f js_function option"
  style :: "AlertButtonStyle option"

type_synonym 'f Buttons = "'f ButtonSpec list"

text \<open>
  The constants a native dialog module exports and the adapters read: the action code
  \<^verbatim>\<open>buttonClicked\<close> and the three role keys. Their values are the service's, so the
  types \<open>'a\<close> and \<open>'k\<close> are parameters.
\<close>

record ('a, 'k) DialogModule =
  buttonClicked :: 'a
  buttonPositive :: 'k
  buttonNegative :: 'k
  buttonNeutral :: 'k

text \<open>\<^verbatim>\<open>require('NativeModules')\<close>, lines 16-18.\<close>

record ('a, 'k) NativeModules =
  DialogManagerAndroid :: "('a, 'k) DialogModule"
  DialogManagerWindows :: "('a, 'k) DialogModule"
  DialogManagerTizen :: "('a, 'k) DialogModule"

text \<open>What a callback does: the argument of a \<^verbatim>\<open>console.log\<close>, and the effects.\<close>

datatype ('f, 'k) logged =
    LogString string
  | LogKey 'k
  | LogButton "'f ButtonSpec option"

datatype ('f, 'k) effect =
    console_warn "string option"
  | console_log "('f, 'k) logged"
  | invoke_onPress "'f js_function"

text \<open>
  What can be thrown: the \<^verbatim>\<open>TypeError\<close> of reading a property of \<^verbatim>\<open>undefined\<close>, and
  whatever an \<^verbatim>\<open>onPress\<close> function throws.
\<close>

datatype js_error = TypeError | thrown_by_onPress

text \<open>
  A piece of code either returns after its effects, or throws after the effects that
  came before the throw. \<open>'e\<close> is the type of the effects.
\<close>

datatype 'e outcome =
    Returns "'e list"
  | Throws "'e list" js_error

text \<open>The arguments of the one \<^verbatim>\<open>showAlert\<close> call an adapter makes.\<close>

record ('f, 'a, 'k) showAlert_args =
  config :: "(string \<times> string) list"
  errorCallback :: "string \<Rightarrow> ('f, 'k) effect outcome"
  resultCallback :: "'a \<Rightarrow> 'k \<Rightarrow> ('f, 'k) effect outcome"

text \<open>
  The calls the dispatcher makes, in order. \<open>AlertIOS_alert\<close> with a last argument
  \<open>None\<close> is the call with three arguments.
\<close>

datatype ('f, 'a, 'k, 't) call =
    warn string
  | AlertIOS_alert "string option" "string option" "'f Buttons option" "'t option"
  | DialogModuleAndroid_showAlert "('f, 'a, 'k) showAlert_args"
  | DialogModuleWindows_showAlert "('f, 'a, 'k) showAlert_args"
  | DialogModuleTizen_showAlert "('f, 'a, 'k) showAlert_args"

subsection \<open>The JavaScript operations the adapters use\<close>

text \<open>\<^verbatim>\<open>x || ''\<close> on a \<^verbatim>\<open>?string\<close>: the empty string is falsy and gives \<^verbatim>\<open>''\<close> too.\<close>

definition or_empty :: "string option \<Rightarrow> string" where
  "or_empty x = (case x of None \<Rightarrow> '''' | Some s \<Rightarrow> (if s = '''' then '''' else s))"

text \<open>
  \<^verbatim>\<open>Array.prototype.pop\<close>: removes and returns the last element; on an empty array it
  returns \<^verbatim>\<open>undefined\<close> and leaves the array empty.
\<close>

definition pop :: "'a list \<Rightarrow> 'a option \<times> 'a list" where
  "pop xs = (if xs = [] then (None, []) else (Some (last xs), butlast xs))"

text \<open>
  \<^verbatim>\<open>b.onPress && b.onPress()\<close> where \<^verbatim>\<open>b\<close> is the result of a \<^verbatim>\<open>pop\<close>: reading a
  property of \<^verbatim>\<open>undefined\<close> throws a \<^verbatim>\<open>TypeError\<close>; an absent \<^verbatim>\<open>onPress\<close> is falsy
  and nothing is called; a present one is called, and when the call throws, the
  exception leaves the expression.
\<close>

definition onPress_and_call :: "'f ButtonSpec option \<Rightarrow> ('f, 'k) effect outcome" where
  "onPress_and_call b =
     (case b of
        None \<Rightarrow> Throws [] TypeError
      | Some button \<Rightarrow>
          (case onPress button of
             None \<Rightarrow> Returns []
           | Some (fn_returns g) \<Rightarrow> Returns [invoke_onPress (fn_returns g)]
           | Some (fn_throws g) \<Rightarrow> Throws [invoke_onPress (fn_throws g)] thrown_by_onPress))"

text \<open>Statements in sequence: the effects \<open>es\<close> happen, then \<open>r\<close>.\<close>

definition after :: "'e list \<Rightarrow> 'e outcome \<Rightarrow> 'e outcome" where
  "after es r = (case r of Returns es' \<Rightarrow> Returns (es @ es') | Throws es' e \<Rightarrow> Throws (es @ es') e)"

subsection \<open>AlertAndroid.alert\<close>

text \<open>
  Lines 125-128: the local variables that the config and the result callback are built
  from, returned as \<open>(buttonNeutral, buttonNegative, buttonPositive)\<close>; \<open>None\<close> is
  the \<^verbatim>\<open>undefined\<close> of a \<^verbatim>\<open>pop\<close> on an empty array. An array is truthy also
  when it is empty, so the default button is substituted only for an absent
  \<^verbatim>\<open>buttons\<close>.
\<close>

definition AlertAndroid_buttons ::
  "'f Buttons option \<Rightarrow> 'f ButtonSpec option \<times> 'f ButtonSpec option \<times> 'f ButtonSpec option" where
  "AlertAndroid_buttons buttons =
     (let validButtons = (case buttons of
                            Some bs \<Rightarrow> take 3 bs
                          | None \<Rightarrow> [\<lparr>text = Some ''OK'', onPress = None, style = None\<rparr>]);
          (buttonPositive, validButtons) = pop validButtons;
          (buttonNegative, validButtons) = pop validButtons;
          (buttonNeutral, validButtons) = pop validButtons
      in (buttonNeutral, buttonNegative, buttonPositive))"

text \<open>Lines 119-122 and 129-153: the config and the call of \<^verbatim>\<open>showAlert\<close>.\<close>

definition AlertAndroid_alert ::
  "('a, 'k) DialogModule \<Rightarrow> string option \<Rightarrow> string option \<Rightarrow> 'f Buttons option
     \<Rightarrow> ('f, 'a, 'k) showAlert_args" where
  "AlertAndroid_alert DialogModuleAndroid title message buttons =
     (let config = [(''title'', or_empty title), (''message'', or_empty message)];
          (buttonNeutral, buttonNegative, buttonPositive) = AlertAndroid_buttons buttons;
          config = (case buttonNeutral of
                      Some b \<Rightarrow> AList.update ''buttonNeutral'' (or_empty (text b)) config
                    | None \<Rightarrow> config);
          config = (case buttonNegative of
                      Some b \<Rightarrow> AList.update ''buttonNegative'' (or_empty (text b)) config
                    | None \<Rightarrow> config);
          config = (case buttonPositive of
                      Some b \<Rightarrow> AList.update ''buttonPositive'' (or_empty (text b)) config
                    | None \<Rightarrow> config)
      in \<lparr>config = config,
          errorCallback = (\<lambda>errorMessage. Returns [console_warn message]),
          resultCallback = (\<lambda>action buttonKey.
            if action \<noteq> DialogModule.buttonClicked DialogModuleAndroid then Returns []
            else if buttonKey = DialogModule.buttonNeutral DialogModuleAndroid
              then onPress_and_call buttonNeutral
            else if buttonKey = DialogModule.buttonNegative DialogModuleAndroid
              then onPress_and_call buttonNegative
            else if buttonKey = DialogModule.buttonPositive DialogModuleAndroid
              then onPress_and_call buttonPositive
            else Returns [])\<rparr>)"

subsection \<open>AlertWindows.alert\<close>

text \<open>Lines 173-175, returned as \<open>(buttonNegative, buttonPositive)\<close>.\<close>

definition AlertWindows_buttons ::
  "'f Buttons option \<Rightarrow> 'f ButtonSpec option \<times> 'f ButtonSpec option" where
  "AlertWindows_buttons buttons =
     (let validButtons = (case buttons of
                            Some bs \<Rightarrow> take 2 bs
                          | None \<Rightarrow> [\<lparr>text = Some ''OK'', onPress = None, style = None\<rparr>]);
          (buttonPositive, validButtons) = pop validButtons;
          (buttonNegative, validButtons) = pop validButtons
      in (buttonNegative, buttonPositive))"

text \<open>Lines 167-170 and 176-195.\<close>

definition AlertWindows_alert ::
  "('a, 'k) DialogModule \<Rightarrow> string option \<Rightarrow> string option \<Rightarrow> 'f Buttons option
     \<Rightarrow> ('f, 'a, 'k) showAlert_args" where
  "AlertWindows_alert DialogModuleWindows title message buttons =
     (let config = [(''title'', or_empty title), (''message'', or_empty message)];
          (buttonNegative, buttonPositive) = AlertWindows_buttons buttons;
          config = (case buttonNegative of
                      Some b \<Rightarrow> AList.update ''buttonNegative'' (or_empty (text b)) config
                    | None \<Rightarrow> config);
          config = (case buttonPositive of
                      Some b \<Rightarrow> AList.update ''buttonPositive'' (or_empty (text b)) config
                    | None \<Rightarrow> config)
      in \<lparr>config = config,
          errorCallback = (\<lambda>errorMessage. Returns [console_warn message]),
          resultCallback = (\<lambda>action buttonKey.
            if action \<noteq> DialogModule.buttonClicked DialogModuleWindows then Returns []
            else if buttonKey = DialogModule.buttonNegative DialogModuleWindows
              then onPress_and_call buttonNegative
            else if buttonKey = DialogModule.buttonPositive DialogModuleWindows
              then onPress_and_call buttonPositive
            else Returns [])\<rparr>)"

subsection \<open>AlertTizen.alert\<close>

text \<open>Lines 216-219, returned as \<open>(buttonNeutral, buttonNegative, buttonPositive)\<close>.\<close>

definition AlertTizen_buttons ::
  "'f Buttons option \<Rightarrow> 'f ButtonSpec option \<times> 'f ButtonSpec option \<times> 'f ButtonSpec option" where
  "AlertTizen_buttons buttons =
     (let validButtons = (case buttons of
                            Some bs \<Rightarrow> take 3 bs
                          | None \<Rightarrow> [\<lparr>text = Some ''OK'', onPress = None, style = None\<rparr>]);
          (buttonPositive, validButtons) = pop validButtons;
          (buttonNegative, validButtons) = pop validButtons;
          (buttonNeutral, validButtons) = pop validButtons
      in (buttonNeutral, buttonNegative, buttonPositive))"

text \<open>
  Lines 210-213 and 220-251. The result callback returns at once when the action is
  not \<^verbatim>\<open>buttonClicked\<close>; otherwise it writes its six \<^verbatim>\<open>console.log\<close> lines before
  it looks at the role key, and a seventh in the positive branch.
\<close>

definition AlertTizen_alert ::
  "('a, 'k) DialogModule \<Rightarrow> string option \<Rightarrow> string option \<Rightarrow> 'f Buttons option
     \<Rightarrow> ('f, 'a, 'k) showAlert_args" where
  "AlertTizen_alert DialogModuleTizen title message buttons =
     (let config = [(''title'', or_empty title), (''message'', or_empty message)];
          (buttonNeutral, buttonNegative, buttonPositive) = AlertTizen_buttons buttons;
          config = (case buttonNeutral of
                      Some b \<Rightarrow> AList.update ''buttonNeutral'' (or_empty (text b)) config
                    | None \<Rightarrow> config);
          config = (case buttonNegative of
                      Some b \<Rightarrow> AList.update ''buttonNegative'' (or_empty (text b)) config
                    | None \<Rightarrow> config);
          config = (case buttonPositive of
                      Some b \<Rightarrow> AList.update ''buttonPositive'' (or_empty (text b)) config
                    | None \<Rightarrow> config)
      in \<lparr>config = config,
          errorCallback = (\<lambda>errorMessage. Returns [console_warn message]),
          resultCallback = (\<lambda>action buttonKey.
            if action \<noteq> DialogModule.buttonClicked DialogModuleTizen then Returns []
            else after
              [console_log (LogString ''-----------------alert----sss-------------''),
               console_log (LogKey buttonKey),
               console_log (LogString ''DialogModuleTizen:''),
               console_log (LogKey (DialogModule.buttonNeutral DialogModuleTizen)),
               console_log (LogKey (DialogModule.buttonNegative DialogModuleTizen)),
               console_log (LogKey (DialogModule.buttonPositive DialogModuleTizen))]
              (if buttonKey = DialogModule.buttonNeutral DialogModuleTizen
                 then onPress_and_call buttonNeutral
               else if buttonKey = DialogModule.buttonNegative DialogModuleTizen
                 then onPress_and_call buttonNegative
               else if buttonKey = DialogModule.buttonPositive DialogModuleTizen
                 then after [console_log (LogButton buttonPositive)]
                        (onPress_and_call buttonPositive)
               else Returns []))\<rparr>)"

subsection \<open>Alert.alert\<close>

definition deprecation_warning :: string where
  \<open>deprecation_warning =
     ''Alert.alert() with a 4th "type" parameter is deprecated and will be removed. Use AlertIOS.prompt() instead.''\<close>

text \<open>
  \<^verbatim>\<open>Platform.OS\<close> and the native modules are read from the environment; here they are
  the first two arguments. \<open>type = None\<close> is \<^verbatim>\<open>typeof type === 'undefined'\<close>.
\<close>

definition Alert_alert ::
  "string \<Rightarrow> ('a, 'k) NativeModules \<Rightarrow> string option \<Rightarrow> string option \<Rightarrow> 'f Buttons option
     \<Rightarrow> 't option \<Rightarrow> ('f, 'a, 'k, 't) call outcome" where
  "Alert_alert Platform_OS NativeModules title message buttons type =
     (if Platform_OS = ''ios'' then
        (case type of
           Some ty \<Rightarrow>
             Returns [warn deprecation_warning, AlertIOS_alert title message buttons (Some ty)]
         | None \<Rightarrow> Returns [AlertIOS_alert title message buttons None])
      else if Platform_OS = ''android'' then
        Returns [DialogModuleAndroid_showAlert
           (AlertAndroid_alert (DialogManagerAndroid NativeModules) title message buttons)]
      else if Platform_OS = ''windows'' then
        Returns [DialogModuleWindows_showAlert
           (AlertWindows_alert (DialogManagerWindows NativeModules) title message buttons)]
      else if Platform_OS = ''tizen'' then
        Returns [DialogModuleTizen_showAlert
           (AlertTizen_alert (DialogManagerTizen NativeModules) title message buttons)]
      else Returns [])"



subsection \<open>Notions used to state the properties\<close>

text \<open>
  The entries of a config other than \<^verbatim>\<open>title\<close> and \<^verbatim>\<open>message\<close>: the button roles
  handed to the native service.
\<close>

definition button_entries :: "(string \<times> string) list \<Rightarrow> (string \<times> string) list" where
  "button_entries cfg = filter (\<lambda>kv. fst kv \<noteq> ''title'' \<and> fst kv \<noteq> ''message'') cfg"

text \<open>The \<^verbatim>\<open>onPress\<close> functions an outcome has invoked, in order, and whether it threw.\<close>

primrec invoked :: "('f, 'k) effect \<Rightarrow> 'f js_function list" where
  "invoked (console_warn w) = []"
| "invoked (console_log l) = []"
| "invoked (invoke_onPress f) = [f]"

primrec onPress_calls :: "('f, 'k) effect outcome \<Rightarrow> 'f js_function list" where
  "onPress_calls (Returns es) = concat (map invoked es)"
| "onPress_calls (Throws es e) = concat (map invoked es)"

primrec throws :: "'e outcome \<Rightarrow> bool" where
  "throws (Returns es) = False"
| "throws (Throws es e) = True"

text \<open>The role holds a button whose \<^verbatim>\<open>onPress\<close> is the function \<open>f\<close>.\<close>

definition has_onPress :: "'f ButtonSpec option \<Rightarrow> 'f js_function \<Rightarrow> bool" where
  "has_onPress role f = (case role of None \<Rightarrow> False | Some b \<Rightarrow> onPress b = Some f)"

text \<open>The role holds a button that has no \<^verbatim>\<open>onPress\<close>.\<close>

definition omits_onPress :: "'f ButtonSpec option \<Rightarrow> bool" where
  "omits_onPress role = (case role of None \<Rightarrow> False | Some b \<Rightarrow> onPress b = None)"

text \<open>The role holds a button whose \<^verbatim>\<open>onPress\<close> is present and throws when it is called.\<close>

definition onPress_throws :: "'f ButtonSpec option \<Rightarrow> bool" where
  "onPress_throws role =
     (case role of
        None \<Rightarrow> False
      | Some b \<Rightarrow>
          (case onPress b of
             None \<Rightarrow> False
           | Some (fn_returns g) \<Rightarrow> False
           | Some (fn_throws g) \<Rightarrow> True))"

text \<open>
  A dialog module for the concrete evaluations below, with the values the Android
  service exports: the action is a string, the role keys are integers.
\<close>

definition example_module :: "(string, int) DialogModule" where
  "example_module =
     \<lparr>buttonClicked = ''buttonClicked'', buttonPositive = - 1, buttonNegative = - 2,
      buttonNeutral = - 3\<rparr>"

section \<open>Properties\<close>

subsection \<open>Evaluating the primitives\<close>

lemma pop_Nil: "pop [] = (None, [])"
  by (simp add: pop_def)

lemma pop_snoc: "pop (xs @ [x]) = (Some x, xs)"
  by (simp add: pop_def)

lemma pop_single: "pop [x] = (Some x, [])"
  using pop_snoc [of "[]" x] by simp

lemma pop_two: "pop [x, y] = (Some y, [x])"
  using pop_snoc [of "[x]" y] by simp

lemma pop_three: "pop [x, y, z] = (Some z, [x, y])"
  using pop_snoc [of "[x, y]" z] by simp

lemmas pop_simps = pop_Nil pop_single pop_two pop_three

lemma or_empty_simps:
  "or_empty None = ''''" "or_empty (Some s) = s"
  by (simp_all add: or_empty_def)

lemma or_empty_blank: "or_empty x = '''' \<longleftrightarrow> x = None \<or> x = Some ''''"
  by (cases x) (simp_all add: or_empty_simps)

lemma list3_cases:
  obtains "bs = []" | a where "bs = [a]" | a b where "bs = [a, b]"
    | a b c r where "bs = a # b # c # r"
proof (cases bs)
  case Nil
  then show ?thesis using that(1) by simp
next
  case (Cons a r1)
  note c1 = this
  show ?thesis
  proof (cases r1)
    case Nil
    with c1 show ?thesis using that(2) by simp
  next
    case (Cons b r2)
    note c2 = this
    show ?thesis
    proof (cases r2)
      case Nil
      with c1 c2 show ?thesis using that(3) by simp
    next
      case (Cons c r3)
      with c1 c2 show ?thesis using that(4) by simp
    qed
  qed
qed

subsection \<open>The local variables of each adapter, by the shape of the button list\<close>

lemma AlertAndroid_buttons_simps:
  "AlertAndroid_buttons None
     = (None, None, Some \<lparr>text = Some ''OK'', onPress = None, style = None\<rparr>)"
  "AlertAndroid_buttons (Some []) = (None, None, None)"
  "AlertAndroid_buttons (Some [a]) = (None, None, Some a)"
  "AlertAndroid_buttons (Some [a, b]) = (None, Some a, Some b)"
  "AlertAndroid_buttons (Some (a # b # c # r)) = (Some a, Some b, Some c)"
  by (simp_all add: AlertAndroid_buttons_def pop_simps)

lemma AlertWindows_buttons_simps:
  "AlertWindows_buttons None
     = (None, Some \<lparr>text = Some ''OK'', onPress = None, style = None\<rparr>)"
  "AlertWindows_buttons (Some []) = (None, None)"
  "AlertWindows_buttons (Some [a]) = (None, Some a)"
  "AlertWindows_buttons (Some (a # b # r)) = (Some a, Some b)"
  by (simp_all add: AlertWindows_buttons_def pop_simps)

lemma AlertTizen_buttons_simps:
  "AlertTizen_buttons None
     = (None, None, Some \<lparr>text = Some ''OK'', onPress = None, style = None\<rparr>)"
  "AlertTizen_buttons (Some []) = (None, None, None)"
  "AlertTizen_buttons (Some [a]) = (None, None, Some a)"
  "AlertTizen_buttons (Some [a, b]) = (None, Some a, Some b)"
  "AlertTizen_buttons (Some (a # b # c # r)) = (Some a, Some b, Some c)"
  by (simp_all add: AlertTizen_buttons_def pop_simps)

subsection \<open>Role assignment\<close>

text \<open>
  C1. On the two 3-slot adapters (Android, Tizen) the roles are popped from the end of
  the button list: \<open>[A, B, C]\<close> gives neutral = A, negative = B, positive = C;
  \<open>[A, B]\<close> gives negative = A, positive = B and no neutral entry; \<open>[A]\<close> gives
  positive = A alone. A role that received no button has no entry in the config. The
  label of a button is its \<^verbatim>\<open>text || ''\<close>.
\<close>

theorem C1_role_assignment_from_the_end:
  "config (AlertAndroid_alert dm title message (Some [A, B, C]))
     = [(''title'', or_empty title), (''message'', or_empty message),
        (''buttonNeutral'', or_empty (text A)), (''buttonNegative'', or_empty (text B)),
        (''buttonPositive'', or_empty (text C))]
   \<and> config (AlertAndroid_alert dm title message (Some [A, B]))
     = [(''title'', or_empty title), (''message'', or_empty message),
        (''buttonNegative'', or_empty (text A)), (''buttonPositive'', or_empty (text B))]
   \<and> config (AlertAndroid_alert dm title message (Some [A]))
     = [(''title'', or_empty title), (''message'', or_empty message),
        (''buttonPositive'', or_empty (text A))]
   \<and> config (AlertTizen_alert dm title message (Some [A, B, C]))
     = [(''title'', or_empty title), (''message'', or_empty message),
        (''buttonNeutral'', or_empty (text A)), (''buttonNegative'', or_empty (text B)),
        (''buttonPositive'', or_empty (text C))]
   \<and> config (AlertTizen_alert dm title message (Some [A, B]))
     = [(''title'', or_empty title), (''message'', or_empty message),
        (''buttonNegative'', or_empty (text A)), (''buttonPositive'', or_empty (text B))]
   \<and> config (AlertTizen_alert dm title message (Some [A]))
     = [(''title'', or_empty title), (''message'', or_empty message),
        (''buttonPositive'', or_empty (text A))]"
  by (simp add: AlertAndroid_alert_def AlertTizen_alert_def AlertAndroid_buttons_simps
        AlertTizen_buttons_simps)

text \<open>
  The example of the specification, obtained from C1: three buttons labelled Later,
  Cancel and OK on a 3-slot adapter.
\<close>

theorem C1_role_assignment_example:
  "config (AlertAndroid_alert example_module (Some ''Title'') (Some ''Msg'')
       (Some [\<lparr>text = Some ''Later'', onPress = None :: nat js_function option, style = None\<rparr>,
              \<lparr>text = Some ''Cancel'', onPress = None, style = Some Style_cancel\<rparr>,
              \<lparr>text = Some ''OK'', onPress = None, style = None\<rparr>]))
     = [(''title'', ''Title''), (''message'', ''Msg''), (''buttonNeutral'', ''Later''),
        (''buttonNegative'', ''Cancel''), (''buttonPositive'', ''OK'')]"
  using C1_role_assignment_from_the_end
    [of example_module "Some ''Title''" "Some ''Msg''"
        "\<lparr>text = Some ''Later'', onPress = None :: nat js_function option, style = None\<rparr>"
        "\<lparr>text = Some ''Cancel'', onPress = None, style = Some Style_cancel\<rparr>"
        "\<lparr>text = Some ''OK'', onPress = None, style = None\<rparr>"]
  by (simp add: or_empty_simps)

subsection \<open>The default button\<close>

text \<open>
  C6. For every adapter, when title, message and buttons are all absent, the config
  handed to the native service is exactly
  \<^verbatim>\<open>{title: "", message: "", buttonPositive: "OK"}\<close>: no negative and no neutral role.
\<close>

theorem C6_absent_arguments_config:
  "config (AlertAndroid_alert dm None None None)
     = [(''title'', ''''), (''message'', ''''), (''buttonPositive'', ''OK'')]
   \<and> config (AlertWindows_alert dm None None None)
     = [(''title'', ''''), (''message'', ''''), (''buttonPositive'', ''OK'')]
   \<and> config (AlertTizen_alert dm None None None)
     = [(''title'', ''''), (''message'', ''''), (''buttonPositive'', ''OK'')]"
  by (simp add: AlertAndroid_alert_def AlertWindows_alert_def AlertTizen_alert_def
        AlertAndroid_buttons_simps AlertWindows_buttons_simps AlertTizen_buttons_simps
        or_empty_simps)

text \<open>
  C3, as the code has it. The default button is substituted when \<^verbatim>\<open>buttons\<close> is
  absent: the config then holds the single positive button OK and no other role. A
  supplied list of length 0 is truthy, nothing is substituted, all three \<^verbatim>\<open>pop\<close>
  calls return \<^verbatim>\<open>undefined\<close>, and the config holds no button role at all.
\<close>

theorem C3_default_button_only_when_absent:
  "config (AlertAndroid_alert dm title message None)
     = [(''title'', or_empty title), (''message'', or_empty message), (''buttonPositive'', ''OK'')]
   \<and> config (AlertWindows_alert dm title message None)
     = [(''title'', or_empty title), (''message'', or_empty message), (''buttonPositive'', ''OK'')]
   \<and> config (AlertTizen_alert dm title message None)
     = [(''title'', or_empty title), (''message'', or_empty message), (''buttonPositive'', ''OK'')]
   \<and> config (AlertAndroid_alert dm title message (Some []))
     = [(''title'', or_empty title), (''message'', or_empty message)]
   \<and> config (AlertWindows_alert dm title message (Some []))
     = [(''title'', or_empty title), (''message'', or_empty message)]
   \<and> config (AlertTizen_alert dm title message (Some []))
     = [(''title'', or_empty title), (''message'', or_empty message)]"
  by (simp add: AlertAndroid_alert_def AlertWindows_alert_def AlertTizen_alert_def
        AlertAndroid_buttons_simps AlertWindows_buttons_simps AlertTizen_buttons_simps
        or_empty_simps)

text \<open>
  The claim as written fails: with an empty button list no adapter puts a positive
  button into the config.
\<close>

theorem C3_empty_list_counterexample:
  "map_of (config (AlertAndroid_alert example_module (Some ''Title'') (Some ''Msg'')
             (Some ([] :: nat Buttons)))) ''buttonPositive'' = None
   \<and> map_of (config (AlertWindows_alert example_module (Some ''Title'') (Some ''Msg'')
             (Some ([] :: nat Buttons)))) ''buttonPositive'' = None
   \<and> map_of (config (AlertTizen_alert example_module (Some ''Title'') (Some ''Msg'')
             (Some ([] :: nat Buttons)))) ''buttonPositive'' = None"
  by (simp add: AlertAndroid_alert_def AlertWindows_alert_def AlertTizen_alert_def
        AlertAndroid_buttons_simps AlertWindows_buttons_simps AlertTizen_buttons_simps
        or_empty_simps)

subsection \<open>The error callback\<close>

text \<open>
  C2, evaluated. The error callback of each adapter is
  \<^verbatim>\<open>(errorMessage) => console.warn(message)\<close>: it writes one warning and does nothing
  else, but what it writes is the \<^verbatim>\<open>message\<close> argument of the alert, not the error
  the service reported. Alert \<^verbatim>\<open>("Title", "Msg")\<close>, service error \<^verbatim>\<open>"boom"\<close>: the warning
  is \<^verbatim>\<open>"Msg"\<close>.
\<close>

theorem C2_errorCallback_warns_alert_message:
  "errorCallback (AlertAndroid_alert example_module (Some ''Title'') (Some ''Msg'')
       (None :: nat Buttons option)) ''boom'' = Returns [console_warn (Some ''Msg'')]
   \<and> errorCallback (AlertWindows_alert example_module (Some ''Title'') (Some ''Msg'')
       (None :: nat Buttons option)) ''boom'' = Returns [console_warn (Some ''Msg'')]
   \<and> errorCallback (AlertTizen_alert example_module (Some ''Title'') (Some ''Msg'')
       (None :: nat Buttons option)) ''boom'' = Returns [console_warn (Some ''Msg'')]
   \<and> [console_warn (Some ''Msg'') :: (nat, int) effect] \<noteq> [console_warn (Some ''boom'')]"
  by (simp add: AlertAndroid_alert_def AlertWindows_alert_def AlertTizen_alert_def
        AlertAndroid_buttons_simps AlertWindows_buttons_simps AlertTizen_buttons_simps)

subsection \<open>The dispatcher\<close>

text \<open>
  C8. When \<^verbatim>\<open>Platform.OS\<close> is none of ios, android, windows, tizen, the dispatcher
  does nothing: it calls no adapter and no native \<^verbatim>\<open>showAlert\<close>, writes no warning,
  and returns from the end of the function without a value and without throwing.
\<close>

theorem C8_unrecognized_platform_does_nothing:
  "Platform_OS \<notin> {''ios'', ''android'', ''windows'', ''tizen''}
     \<Longrightarrow> Alert_alert Platform_OS modules title message buttons type = Returns []"
  by (simp add: Alert_alert_def)

theorem C8_unrecognized_platform_witness:
  "''web'' \<notin> {''ios'', ''android'', ''windows'', ''tizen''}
   \<and> Alert_alert ''web''
        \<lparr>DialogManagerAndroid = example_module, DialogManagerWindows = example_module,
         DialogManagerTizen = example_module\<rparr>
        (Some ''Title'') (Some ''Msg'')
        (Some [\<lparr>text = Some ''OK'', onPress = Some (fn_returns (1 :: nat)), style = None\<rparr>])
        (None :: unit option) = Returns []"
proof -
  have h: "''web'' \<notin> {''ios'', ''android'', ''windows'', ''tizen''}"
    by simp
  show ?thesis
    using h C8_unrecognized_platform_does_nothing [OF h] by simp
qed

text \<open>
  C9. On iOS a defined fourth argument makes the dispatcher write the deprecation
  warning of line 94, with the text given below, and then call \<^verbatim>\<open>AlertIOS.alert\<close>
  with title, message, buttons and the type, all unchanged; without it the dispatcher
  calls \<^verbatim>\<open>AlertIOS.alert\<close> with title, message and buttons only, and writes no
  warning.
\<close>

theorem C9_ios_delegation:
  \<open>Alert_alert ''ios'' modules title message buttons (Some ty)
     = Returns
         [warn ''Alert.alert() with a 4th "type" parameter is deprecated and will be removed. Use AlertIOS.prompt() instead.'',
          AlertIOS_alert title message buttons (Some ty)]
   \<and> Alert_alert ''ios'' modules title message buttons None
     = Returns [AlertIOS_alert title message buttons None]\<close>
  by (simp add: Alert_alert_def deprecation_warning_def)

subsection \<open>Truncation\<close>

text \<open>The config of each adapter, by what its local variables hold.\<close>

lemma AlertAndroid_config:
  assumes "AlertAndroid_buttons buttons = (neu, neg, pos)"
  shows "config (AlertAndroid_alert dm title message buttons)
     = [(''title'', or_empty title), (''message'', or_empty message)]
       @ (case neu of None \<Rightarrow> [] | Some b \<Rightarrow> [(''buttonNeutral'', or_empty (text b))])
       @ (case neg of None \<Rightarrow> [] | Some b \<Rightarrow> [(''buttonNegative'', or_empty (text b))])
       @ (case pos of None \<Rightarrow> [] | Some b \<Rightarrow> [(''buttonPositive'', or_empty (text b))])"
  using assms by (simp add: AlertAndroid_alert_def split: option.splits)

lemma AlertWindows_config:
  assumes "AlertWindows_buttons buttons = (neg, pos)"
  shows "config (AlertWindows_alert dm title message buttons)
     = [(''title'', or_empty title), (''message'', or_empty message)]
       @ (case neg of None \<Rightarrow> [] | Some b \<Rightarrow> [(''buttonNegative'', or_empty (text b))])
       @ (case pos of None \<Rightarrow> [] | Some b \<Rightarrow> [(''buttonPositive'', or_empty (text b))])"
  using assms by (simp add: AlertWindows_alert_def split: option.splits)

lemma AlertTizen_config:
  assumes "AlertTizen_buttons buttons = (neu, neg, pos)"
  shows "config (AlertTizen_alert dm title message buttons)
     = [(''title'', or_empty title), (''message'', or_empty message)]
       @ (case neu of None \<Rightarrow> [] | Some b \<Rightarrow> [(''buttonNeutral'', or_empty (text b))])
       @ (case neg of None \<Rightarrow> [] | Some b \<Rightarrow> [(''buttonNegative'', or_empty (text b))])
       @ (case pos of None \<Rightarrow> [] | Some b \<Rightarrow> [(''buttonPositive'', or_empty (text b))])"
  using assms by (simp add: AlertTizen_alert_def split: option.splits)

lemma AlertAndroid_labels:
  "map snd (button_entries (config (AlertAndroid_alert dm title message (Some bs))))
     = map (\<lambda>b. or_empty (text b)) (take 3 bs)"
  by (cases bs rule: list3_cases)
     (simp_all add: AlertAndroid_config [OF AlertAndroid_buttons_simps(2)]
        AlertAndroid_config [OF AlertAndroid_buttons_simps(3)]
        AlertAndroid_config [OF AlertAndroid_buttons_simps(4)]
        AlertAndroid_config [OF AlertAndroid_buttons_simps(5)] button_entries_def)

lemma AlertWindows_labels:
  "map snd (button_entries (config (AlertWindows_alert dm title message (Some bs))))
     = map (\<lambda>b. or_empty (text b)) (take 2 bs)"
  by (cases bs rule: list3_cases)
     (simp_all add: AlertWindows_config [OF AlertWindows_buttons_simps(2)]
        AlertWindows_config [OF AlertWindows_buttons_simps(3)]
        AlertWindows_config [OF AlertWindows_buttons_simps(4)] button_entries_def)

lemma AlertTizen_labels:
  "map snd (button_entries (config (AlertTizen_alert dm title message (Some bs))))
     = map (\<lambda>b. or_empty (text b)) (take 3 bs)"
  by (cases bs rule: list3_cases)
     (simp_all add: AlertTizen_config [OF AlertTizen_buttons_simps(2)]
        AlertTizen_config [OF AlertTizen_buttons_simps(3)]
        AlertTizen_config [OF AlertTizen_buttons_simps(4)]
        AlertTizen_config [OF AlertTizen_buttons_simps(5)] button_entries_def)

lemma AlertAndroid_truncates:
  "AlertAndroid_alert dm title message (Some bs)
     = AlertAndroid_alert dm title message (Some (take 3 bs))"
  by (simp add: AlertAndroid_alert_def AlertAndroid_buttons_def)

lemma AlertWindows_truncates:
  "AlertWindows_alert dm title message (Some bs)
     = AlertWindows_alert dm title message (Some (take 2 bs))"
  by (simp add: AlertWindows_alert_def AlertWindows_buttons_def)

lemma AlertTizen_truncates:
  "AlertTizen_alert dm title message (Some bs)
     = AlertTizen_alert dm title message (Some (take 3 bs))"
  by (simp add: AlertTizen_alert_def AlertTizen_buttons_def)

text \<open>
  C5. Each adapter uses only the first 3 (Android, Tizen) or 2 (Windows) elements of a
  supplied button list: the call it makes is the one it makes for the truncated list,
  the labels of the button entries of its config are the labels of those first
  elements in their order, and so the config never holds more button entries than the
  platform maximum.
\<close>

theorem C5_truncation_to_platform_maximum:
  "AlertAndroid_alert dm title message (Some bs)
     = AlertAndroid_alert dm title message (Some (take 3 bs))
   \<and> map snd (button_entries (config (AlertAndroid_alert dm title message (Some bs))))
     = map (\<lambda>b. or_empty (text b)) (take 3 bs)
   \<and> length (button_entries (config (AlertAndroid_alert dm title message (Some bs)))) \<le> 3
   \<and> AlertWindows_alert dm title message (Some bs)
     = AlertWindows_alert dm title message (Some (take 2 bs))
   \<and> map snd (button_entries (config (AlertWindows_alert dm title message (Some bs))))
     = map (\<lambda>b. or_empty (text b)) (take 2 bs)
   \<and> length (button_entries (config (AlertWindows_alert dm title message (Some bs)))) \<le> 2
   \<and> AlertTizen_alert dm title message (Some bs)
     = AlertTizen_alert dm title message (Some (take 3 bs))
   \<and> map snd (button_entries (config (AlertTizen_alert dm title message (Some bs))))
     = map (\<lambda>b. or_empty (text b)) (take 3 bs)
   \<and> length (button_entries (config (AlertTizen_alert dm title message (Some bs)))) \<le> 3"
proof -
  have a: "length (button_entries (config (AlertAndroid_alert dm title message (Some bs)))) \<le> 3"
    using arg_cong [OF AlertAndroid_labels [of dm title message bs], of length] by simp
  have w: "length (button_entries (config (AlertWindows_alert dm title message (Some bs)))) \<le> 2"
    using arg_cong [OF AlertWindows_labels [of dm title message bs], of length] by simp
  have t: "length (button_entries (config (AlertTizen_alert dm title message (Some bs)))) \<le> 3"
    using arg_cong [OF AlertTizen_labels [of dm title message bs], of length] by simp
  show ?thesis
    using a w t AlertAndroid_labels [of dm title message bs]
      AlertWindows_labels [of dm title message bs] AlertTizen_labels [of dm title message bs]
      AlertAndroid_truncates [of dm title message bs]
      AlertWindows_truncates [of dm title message bs]
      AlertTizen_truncates [of dm title message bs]
    by blast
qed

text \<open>
  Five buttons on each adapter: the entries are those of the first three (Windows: the
  first two).
\<close>

theorem C5_truncation_example:
  "button_entries (config (AlertAndroid_alert example_module (Some ''Title'') (Some ''Msg'')
       (Some (map (\<lambda>l. \<lparr>text = Some l, onPress = None :: nat js_function option, style = None\<rparr>)
          [''a'', ''b'', ''c'', ''d'', ''e'']))))
     = [(''buttonNeutral'', ''a''), (''buttonNegative'', ''b''), (''buttonPositive'', ''c'')]
   \<and> button_entries (config (AlertWindows_alert example_module (Some ''Title'') (Some ''Msg'')
       (Some (map (\<lambda>l. \<lparr>text = Some l, onPress = None :: nat js_function option, style = None\<rparr>)
          [''a'', ''b'', ''c'', ''d'', ''e'']))))
     = [(''buttonNegative'', ''a''), (''buttonPositive'', ''b'')]"
  using C5_truncation_to_platform_maximum [of example_module "Some ''Title''" "Some ''Msg''"
      "map (\<lambda>l. \<lparr>text = Some l, onPress = None :: nat js_function option, style = None\<rparr>)
          [''a'', ''b'', ''c'', ''d'', ''e'']"]
  by (simp add: AlertAndroid_alert_def AlertWindows_alert_def AlertAndroid_buttons_simps
        AlertWindows_buttons_simps or_empty_simps button_entries_def)

subsection \<open>Labels\<close>

text \<open>
  C10. A button that is assigned to a role and whose \<^verbatim>\<open>text\<close> is omitted or empty
  contributes that role to the config with the label \<^verbatim>\<open>""\<close>: the role key is present.
  The button assigned to a role is the value of the adapter's local variable of that
  role.
\<close>

theorem C10_missing_label_is_empty_string:
  assumes "text b = None \<or> text b = Some ''''"
    and "AlertAndroid_buttons buttons = (neuA, negA, posA)"
    and "AlertWindows_buttons buttons = (negW, posW)"
    and "AlertTizen_buttons buttons = (neuT, negT, posT)"
  shows "(neuA = Some b \<longrightarrow>
            map_of (config (AlertAndroid_alert dm title message buttons)) ''buttonNeutral'' = Some '''')
       \<and> (negA = Some b \<longrightarrow>
            map_of (config (AlertAndroid_alert dm title message buttons)) ''buttonNegative'' = Some '''')
       \<and> (posA = Some b \<longrightarrow>
            map_of (config (AlertAndroid_alert dm title message buttons)) ''buttonPositive'' = Some '''')
       \<and> (negW = Some b \<longrightarrow>
            map_of (config (AlertWindows_alert dm title message buttons)) ''buttonNegative'' = Some '''')
       \<and> (posW = Some b \<longrightarrow>
            map_of (config (AlertWindows_alert dm title message buttons)) ''buttonPositive'' = Some '''')
       \<and> (neuT = Some b \<longrightarrow>
            map_of (config (AlertTizen_alert dm title message buttons)) ''buttonNeutral'' = Some '''')
       \<and> (negT = Some b \<longrightarrow>
            map_of (config (AlertTizen_alert dm title message buttons)) ''buttonNegative'' = Some '''')
       \<and> (posT = Some b \<longrightarrow>
            map_of (config (AlertTizen_alert dm title message buttons)) ''buttonPositive'' = Some '''')"
proof -
  have blank: "or_empty (text b) = ''''"
    using assms(1) by (simp add: or_empty_blank)
  show ?thesis
    using blank
    by (simp add: AlertAndroid_config [OF assms(2)] AlertWindows_config [OF assms(3)]
          AlertTizen_config [OF assms(4)] split: option.splits)
qed

text \<open>
  Two buttons without a label, the first with no \<^verbatim>\<open>text\<close> and the second with an empty
  one: both roles are in the config, with the label \<^verbatim>\<open>""\<close>.
\<close>

theorem C10_missing_label_witness:
  "config (AlertAndroid_alert example_module (Some ''Title'') (Some ''Msg'')
       (Some [\<lparr>text = None, onPress = Some (fn_returns (1 :: nat)), style = None\<rparr>,
              \<lparr>text = Some '''', onPress = Some (fn_returns 2), style = None\<rparr>]))
     = [(''title'', ''Title''), (''message'', ''Msg''), (''buttonNegative'', ''''),
        (''buttonPositive'', '''')]
   \<and> map_of (config (AlertAndroid_alert example_module (Some ''Title'') (Some ''Msg'')
       (Some [\<lparr>text = None, onPress = Some (fn_returns (1 :: nat)), style = None\<rparr>,
              \<lparr>text = Some '''', onPress = Some (fn_returns 2), style = None\<rparr>]))) ''buttonNegative''
     = Some ''''
   \<and> map_of (config (AlertWindows_alert example_module (Some ''Title'') (Some ''Msg'')
       (Some [\<lparr>text = None, onPress = Some (fn_returns (1 :: nat)), style = None\<rparr>,
              \<lparr>text = Some '''', onPress = Some (fn_returns 2), style = None\<rparr>]))) ''buttonNegative''
     = Some ''''
   \<and> map_of (config (AlertTizen_alert example_module (Some ''Title'') (Some ''Msg'')
       (Some [\<lparr>text = None, onPress = Some (fn_returns (1 :: nat)), style = None\<rparr>,
              \<lparr>text = Some '''', onPress = Some (fn_returns 2), style = None\<rparr>]))) ''buttonNegative''
     = Some ''''"
  using C10_missing_label_is_empty_string
    [of "\<lparr>text = None, onPress = Some (fn_returns (1 :: nat)), style = None\<rparr>"
        "Some [\<lparr>text = None, onPress = Some (fn_returns (1 :: nat)), style = None\<rparr>,
               \<lparr>text = Some '''', onPress = Some (fn_returns 2), style = None\<rparr>]"
        None "Some \<lparr>text = None, onPress = Some (fn_returns (1 :: nat)), style = None\<rparr>"
        "Some \<lparr>text = Some '''', onPress = Some (fn_returns (2 :: nat)), style = None\<rparr>"
        "Some \<lparr>text = None, onPress = Some (fn_returns (1 :: nat)), style = None\<rparr>"
        "Some \<lparr>text = Some '''', onPress = Some (fn_returns (2 :: nat)), style = None\<rparr>"
        None "Some \<lparr>text = None, onPress = Some (fn_returns (1 :: nat)), style = None\<rparr>"
        "Some \<lparr>text = Some '''', onPress = Some (fn_returns (2 :: nat)), style = None\<rparr>"
        example_module "Some ''Title''" "Some ''Msg''"]
  by (simp add: AlertAndroid_buttons_simps AlertWindows_buttons_simps AlertTizen_buttons_simps
        AlertAndroid_alert_def or_empty_simps)

subsection \<open>The result callback\<close>

lemma AlertAndroid_resultCallback:
  assumes "AlertAndroid_buttons buttons = (neu, neg, pos)"
  shows "resultCallback (AlertAndroid_alert dm title message buttons) action key
     = (if action \<noteq> buttonClicked dm then Returns []
        else if key = buttonNeutral dm then onPress_and_call neu
        else if key = buttonNegative dm then onPress_and_call neg
        else if key = buttonPositive dm then onPress_and_call pos
        else Returns [])"
  using assms by (simp add: AlertAndroid_alert_def Let_def)

lemma AlertWindows_resultCallback:
  assumes "AlertWindows_buttons buttons = (neg, pos)"
  shows "resultCallback (AlertWindows_alert dm title message buttons) action key
     = (if action \<noteq> buttonClicked dm then Returns []
        else if key = buttonNegative dm then onPress_and_call neg
        else if key = buttonPositive dm then onPress_and_call pos
        else Returns [])"
  using assms by (simp add: AlertWindows_alert_def Let_def)

lemma AlertTizen_resultCallback:
  assumes "AlertTizen_buttons buttons = (neu, neg, pos)"
  shows "resultCallback (AlertTizen_alert dm title message buttons) action key
     = (if action \<noteq> buttonClicked dm then Returns []
        else after
          [console_log (LogString ''-----------------alert----sss-------------''),
           console_log (LogKey key),
           console_log (LogString ''DialogModuleTizen:''),
           console_log (LogKey (buttonNeutral dm)),
           console_log (LogKey (buttonNegative dm)),
           console_log (LogKey (buttonPositive dm))]
          (if key = buttonNeutral dm then onPress_and_call neu
           else if key = buttonNegative dm then onPress_and_call neg
           else if key = buttonPositive dm
             then after [console_log (LogButton pos)] (onPress_and_call pos)
           else Returns []))"
  using assms by (simp add: AlertTizen_alert_def Let_def)

lemma onPress_and_call_None: "onPress_and_call None = Throws [] TypeError"
  by (simp add: onPress_and_call_def)

lemma onPress_and_call_omits:
  "omits_onPress role \<Longrightarrow> onPress_and_call role = Returns []"
  by (cases role) (simp_all add: onPress_and_call_def omits_onPress_def)

lemma onPress_calls_onPress_and_call:
  "f \<in> set (onPress_calls (onPress_and_call role)) \<longleftrightarrow> has_onPress role f"
proof (cases role)
  case None
  then show ?thesis by (simp add: onPress_and_call_def has_onPress_def)
next
  case (Some b)
  then show ?thesis
    by (auto simp add: onPress_and_call_def has_onPress_def
          split: option.splits js_function.splits)
qed

lemma onPress_calls_has:
  assumes "has_onPress role f"
  shows "onPress_calls (onPress_and_call role) = [f]"
proof (cases role)
  case None
  with assms show ?thesis by (simp add: has_onPress_def)
next
  case (Some b)
  with assms show ?thesis
    by (cases f) (simp_all add: onPress_and_call_def has_onPress_def)
qed

lemma throws_onPress_and_call:
  "throws (onPress_and_call role) \<longleftrightarrow> role = None \<or> onPress_throws role"
  by (simp add: onPress_and_call_def onPress_throws_def
        split: option.splits js_function.splits)

lemma onPress_calls_after:
  "onPress_calls (after es r) = concat (map invoked es) @ onPress_calls r"
  by (cases r) (simp_all add: after_def)

lemma throws_after: "throws (after es r) = throws r"
  by (cases r) (simp_all add: after_def)

text \<open>
  C7. In the result callback of every adapter a caller's \<^verbatim>\<open>onPress\<close> is invoked only
  when the action is the service's \<^verbatim>\<open>buttonClicked\<close> and the role key is the constant
  of a role whose button has that \<^verbatim>\<open>onPress\<close>. When the action is not
  \<^verbatim>\<open>buttonClicked\<close> the callback returns without any effect; when the role key is none
  of the role constants the adapter tests, no \<^verbatim>\<open>onPress\<close> is invoked. When the action
  is \<^verbatim>\<open>buttonClicked\<close>, the role key is a role constant and the button of that role has
  an \<^verbatim>\<open>onPress\<close>, exactly that function is invoked, once. The constants are tested in
  the order neutral, negative, positive (Windows: negative, positive) and the first
  equal one selects the role; for constants that differ from one another the side
  conditions \<open>key \<noteq> \<dots>\<close> below hold by themselves.
\<close>

theorem C7_onPress_only_for_clicked_assigned_role:
  fixes dm :: "('a, 'k) DialogModule" and buttons :: "'f Buttons option"
    and title message :: "string option" and action :: 'a and key :: 'k
  assumes "AlertAndroid_buttons buttons = (neuA, negA, posA)"
    and "AlertWindows_buttons buttons = (negW, posW)"
    and "AlertTizen_buttons buttons = (neuT, negT, posT)"
  defines "RA \<equiv> resultCallback (AlertAndroid_alert dm title message buttons) action key"
    and "RW \<equiv> resultCallback (AlertWindows_alert dm title message buttons) action key"
    and "RT \<equiv> resultCallback (AlertTizen_alert dm title message buttons) action key"
  shows "(action \<noteq> buttonClicked dm \<longrightarrow> RA = Returns [] \<and> RW = Returns [] \<and> RT = Returns [])
    \<and> (key \<noteq> buttonNeutral dm \<and> key \<noteq> buttonNegative dm \<and> key \<noteq> buttonPositive dm \<longrightarrow>
          onPress_calls RA = [] \<and> onPress_calls RT = [])
    \<and> (key \<noteq> buttonNegative dm \<and> key \<noteq> buttonPositive dm \<longrightarrow> onPress_calls RW = [])
    \<and> (f \<in> set (onPress_calls RA) \<longrightarrow>
          action = buttonClicked dm
          \<and> (key = buttonNeutral dm \<and> has_onPress neuA f
             \<or> key = buttonNegative dm \<and> has_onPress negA f
             \<or> key = buttonPositive dm \<and> has_onPress posA f))
    \<and> (f \<in> set (onPress_calls RW) \<longrightarrow>
          action = buttonClicked dm
          \<and> (key = buttonNegative dm \<and> has_onPress negW f
             \<or> key = buttonPositive dm \<and> has_onPress posW f))
    \<and> (f \<in> set (onPress_calls RT) \<longrightarrow>
          action = buttonClicked dm
          \<and> (key = buttonNeutral dm \<and> has_onPress neuT f
             \<or> key = buttonNegative dm \<and> has_onPress negT f
             \<or> key = buttonPositive dm \<and> has_onPress posT f))
    \<and> (action = buttonClicked dm \<and> key = buttonNeutral dm \<and> has_onPress neuA f \<longrightarrow>
          onPress_calls RA = [f])
    \<and> (action = buttonClicked dm \<and> key \<noteq> buttonNeutral dm \<and> key = buttonNegative dm
          \<and> has_onPress negA f \<longrightarrow> onPress_calls RA = [f])
    \<and> (action = buttonClicked dm \<and> key \<noteq> buttonNeutral dm \<and> key \<noteq> buttonNegative dm
          \<and> key = buttonPositive dm \<and> has_onPress posA f \<longrightarrow> onPress_calls RA = [f])
    \<and> (action = buttonClicked dm \<and> key = buttonNegative dm \<and> has_onPress negW f \<longrightarrow>
          onPress_calls RW = [f])
    \<and> (action = buttonClicked dm \<and> key \<noteq> buttonNegative dm \<and> key = buttonPositive dm
          \<and> has_onPress posW f \<longrightarrow> onPress_calls RW = [f])
    \<and> (action = buttonClicked dm \<and> key = buttonNeutral dm \<and> has_onPress neuT f \<longrightarrow>
          onPress_calls RT = [f])
    \<and> (action = buttonClicked dm \<and> key \<noteq> buttonNeutral dm \<and> key = buttonNegative dm
          \<and> has_onPress negT f \<longrightarrow> onPress_calls RT = [f])
    \<and> (action = buttonClicked dm \<and> key \<noteq> buttonNeutral dm \<and> key \<noteq> buttonNegative dm
          \<and> key = buttonPositive dm \<and> has_onPress posT f \<longrightarrow> onPress_calls RT = [f])"
proof -
  note RA = RA_def [unfolded AlertAndroid_resultCallback [OF assms(1)]]
  note RW = RW_def [unfolded AlertWindows_resultCallback [OF assms(2)]]
  note RT = RT_def [unfolded AlertTizen_resultCallback [OF assms(3)]]
  have not_clicked:
    "action \<noteq> buttonClicked dm \<longrightarrow> RA = Returns [] \<and> RW = Returns [] \<and> RT = Returns []"
    by (simp add: RA RW RT)
  have no_match3:
    "key \<noteq> buttonNeutral dm \<and> key \<noteq> buttonNegative dm \<and> key \<noteq> buttonPositive dm \<longrightarrow>
       onPress_calls RA = [] \<and> onPress_calls RT = []"
    by (simp add: RA RT onPress_calls_after)
  have no_match2:
    "key \<noteq> buttonNegative dm \<and> key \<noteq> buttonPositive dm \<longrightarrow> onPress_calls RW = []"
    by (simp add: RW)
  have onlyA: "f \<in> set (onPress_calls RA) \<longrightarrow>
          action = buttonClicked dm
          \<and> (key = buttonNeutral dm \<and> has_onPress neuA f
             \<or> key = buttonNegative dm \<and> has_onPress negA f
             \<or> key = buttonPositive dm \<and> has_onPress posA f)"
    by (simp add: RA onPress_calls_onPress_and_call split: if_splits)
  have onlyW: "f \<in> set (onPress_calls RW) \<longrightarrow>
          action = buttonClicked dm
          \<and> (key = buttonNegative dm \<and> has_onPress negW f
             \<or> key = buttonPositive dm \<and> has_onPress posW f)"
    by (simp add: RW onPress_calls_onPress_and_call split: if_splits)
  have onlyT: "f \<in> set (onPress_calls RT) \<longrightarrow>
          action = buttonClicked dm
          \<and> (key = buttonNeutral dm \<and> has_onPress neuT f
             \<or> key = buttonNegative dm \<and> has_onPress negT f
             \<or> key = buttonPositive dm \<and> has_onPress posT f)"
    by (simp add: RT onPress_calls_after onPress_calls_onPress_and_call split: if_splits)
  have exactA:
    "action = buttonClicked dm \<and> key = buttonNeutral dm \<and> has_onPress neuA f \<longrightarrow>
          onPress_calls RA = [f]"
    "action = buttonClicked dm \<and> key \<noteq> buttonNeutral dm \<and> key = buttonNegative dm
          \<and> has_onPress negA f \<longrightarrow> onPress_calls RA = [f]"
    "action = buttonClicked dm \<and> key \<noteq> buttonNeutral dm \<and> key \<noteq> buttonNegative dm
          \<and> key = buttonPositive dm \<and> has_onPress posA f \<longrightarrow> onPress_calls RA = [f]"
    by (auto simp add: RA onPress_calls_has)
  have exactW:
    "action = buttonClicked dm \<and> key = buttonNegative dm \<and> has_onPress negW f \<longrightarrow>
          onPress_calls RW = [f]"
    "action = buttonClicked dm \<and> key \<noteq> buttonNegative dm \<and> key = buttonPositive dm
          \<and> has_onPress posW f \<longrightarrow> onPress_calls RW = [f]"
    by (auto simp add: RW onPress_calls_has)
  have exactT:
    "action = buttonClicked dm \<and> key = buttonNeutral dm \<and> has_onPress neuT f \<longrightarrow>
          onPress_calls RT = [f]"
    "action = buttonClicked dm \<and> key \<noteq> buttonNeutral dm \<and> key = buttonNegative dm
          \<and> has_onPress negT f \<longrightarrow> onPress_calls RT = [f]"
    "action = buttonClicked dm \<and> key \<noteq> buttonNeutral dm \<and> key \<noteq> buttonNegative dm
          \<and> key = buttonPositive dm \<and> has_onPress posT f \<longrightarrow> onPress_calls RT = [f]"
    by (auto simp add: RT onPress_calls_after onPress_calls_has)
  show ?thesis
    using not_clicked no_match3 no_match2 onlyA onlyW onlyT exactA exactW exactT
    by blast
qed

text \<open>
  Three buttons with the \<^verbatim>\<open>onPress\<close> functions 1, 2 and 3, and the role key of the
  negative button: Android and Tizen invoke 2, Windows (which keeps the first two
  buttons) invokes 1; with another action nothing happens.
\<close>

theorem C7_onPress_witness:
  "onPress_calls (resultCallback (AlertAndroid_alert example_module (Some ''Title'') (Some ''Msg'')
       (Some [\<lparr>text = Some ''Later'', onPress = Some (fn_returns (1 :: nat)), style = None\<rparr>,
              \<lparr>text = Some ''Cancel'', onPress = Some (fn_returns 2), style = None\<rparr>,
              \<lparr>text = Some ''OK'', onPress = Some (fn_returns 3), style = None\<rparr>]))
       ''buttonClicked'' (- 2)) = [fn_returns 2]
   \<and> onPress_calls (resultCallback (AlertWindows_alert example_module (Some ''Title'') (Some ''Msg'')
       (Some [\<lparr>text = Some ''Later'', onPress = Some (fn_returns (1 :: nat)), style = None\<rparr>,
              \<lparr>text = Some ''Cancel'', onPress = Some (fn_returns 2), style = None\<rparr>,
              \<lparr>text = Some ''OK'', onPress = Some (fn_returns 3), style = None\<rparr>]))
       ''buttonClicked'' (- 2)) = [fn_returns 1]
   \<and> onPress_calls (resultCallback (AlertTizen_alert example_module (Some ''Title'') (Some ''Msg'')
       (Some [\<lparr>text = Some ''Later'', onPress = Some (fn_returns (1 :: nat)), style = None\<rparr>,
              \<lparr>text = Some ''Cancel'', onPress = Some (fn_returns 2), style = None\<rparr>,
              \<lparr>text = Some ''OK'', onPress = Some (fn_returns 3), style = None\<rparr>]))
       ''buttonClicked'' (- 2)) = [fn_returns 2]
   \<and> resultCallback (AlertAndroid_alert example_module (Some ''Title'') (Some ''Msg'')
       (Some [\<lparr>text = Some ''Later'', onPress = Some (fn_returns (1 :: nat)), style = None\<rparr>,
              \<lparr>text = Some ''Cancel'', onPress = Some (fn_returns 2), style = None\<rparr>,
              \<lparr>text = Some ''OK'', onPress = Some (fn_returns 3), style = None\<rparr>]))
       ''dismissed'' (- 2) = Returns []
   \<and> onPress_calls (resultCallback (AlertTizen_alert example_module (Some ''Title'') (Some ''Msg'')
       (Some [\<lparr>text = Some ''Later'', onPress = Some (fn_returns (1 :: nat)), style = None\<rparr>,
              \<lparr>text = Some ''Cancel'', onPress = Some (fn_returns 2), style = None\<rparr>,
              \<lparr>text = Some ''OK'', onPress = Some (fn_returns 3), style = None\<rparr>]))
       ''buttonClicked'' 7) = []"
proof -
  let ?b1 = "\<lparr>text = Some ''Later'', onPress = Some (fn_returns (1 :: nat)), style = None\<rparr>"
  let ?b2 = "\<lparr>text = Some ''Cancel'', onPress = Some (fn_returns (2 :: nat)), style = None\<rparr>"
  let ?b3 = "\<lparr>text = Some ''OK'', onPress = Some (fn_returns (3 :: nat)), style = None\<rparr>"
  have A: "AlertAndroid_buttons (Some [?b1, ?b2, ?b3]) = (Some ?b1, Some ?b2, Some ?b3)"
    by (simp add: AlertAndroid_buttons_simps)
  have W: "AlertWindows_buttons (Some [?b1, ?b2, ?b3]) = (Some ?b1, Some ?b2)"
    by (simp add: AlertWindows_buttons_simps)
  have T: "AlertTizen_buttons (Some [?b1, ?b2, ?b3]) = (Some ?b1, Some ?b2, Some ?b3)"
    by (simp add: AlertTizen_buttons_simps)
  note c = C7_onPress_only_for_clicked_assigned_role [OF A W T,
      where dm = example_module and title = "Some ''Title''" and message = "Some ''Msg''"]
  show ?thesis
    using c [where action = "''buttonClicked''" and key = "- 2" and f = "fn_returns 2"]
      c [where action = "''buttonClicked''" and key = "- 2" and f = "fn_returns 1"]
      c [where action = "''dismissed''" and key = "- 2" and f = "fn_returns 1"]
      c [where action = "''buttonClicked''" and key = 7 and f = "fn_returns 1"]
    by (simp add: example_module_def has_onPress_def)
qed

subsection \<open>Exceptions\<close>

text \<open>
  The claim C4 as written fails. One button, so only the positive role is assigned; the
  service reports a click on the negative role: the callback reads \<^verbatim>\<open>onPress\<close> of
  \<^verbatim>\<open>undefined\<close> and throws a \<^verbatim>\<open>TypeError\<close>. On the Tizen adapter the six
  \<^verbatim>\<open>console.log\<close> lines come first.
\<close>

theorem C4_unassigned_role_counterexample:
  "resultCallback (AlertAndroid_alert example_module (Some ''Title'') (Some ''Msg'')
       (Some [\<lparr>text = Some ''OK'', onPress = Some (fn_returns (1 :: nat)), style = None\<rparr>]))
       ''buttonClicked'' (- 2) = Throws [] TypeError
   \<and> resultCallback (AlertWindows_alert example_module (Some ''Title'') (Some ''Msg'')
       (Some [\<lparr>text = Some ''OK'', onPress = Some (fn_returns (1 :: nat)), style = None\<rparr>]))
       ''buttonClicked'' (- 2) = Throws [] TypeError
   \<and> resultCallback (AlertTizen_alert example_module (Some ''Title'') (Some ''Msg'')
       (Some [\<lparr>text = Some ''OK'', onPress = Some (fn_returns (1 :: nat)), style = None\<rparr>]))
       ''buttonClicked'' (- 2)
     = Throws [console_log (LogString ''-----------------alert----sss-------------''),
               console_log (LogKey (- 2)),
               console_log (LogString ''DialogModuleTizen:''),
               console_log (LogKey (- 3)),
               console_log (LogKey (- 2)),
               console_log (LogKey (- 1))] TypeError"
  by (simp add: AlertAndroid_resultCallback [OF AlertAndroid_buttons_simps(3)]
        AlertWindows_resultCallback [OF AlertWindows_buttons_simps(3)]
        AlertTizen_resultCallback [OF AlertTizen_buttons_simps(3)]
        example_module_def onPress_and_call_None after_def)

text \<open>
  C4, as the code has it. For every platform, title, message, button list, legacy
  type and reported error, the dispatcher and the error callback of every adapter
  return without throwing; on its own platform the body of an adapter runs to its end,
  having made its one \<^verbatim>\<open>showAlert\<close> call. The result callback of an adapter
  throws in exactly two cases, both with the action \<^verbatim>\<open>buttonClicked\<close> and for the role
  that the role key selects (the first equal constant in the order neutral, negative,
  positive; Windows: negative, positive): the role has no button assigned, so that
  \<^verbatim>\<open>onPress\<close> is read from \<^verbatim>\<open>undefined\<close>; or the button of the role has an
  \<^verbatim>\<open>onPress\<close> and the call of that function throws, there being no \<^verbatim>\<open>try\<close> around it.
  For every other action and role key the callback returns. In particular, when the
  selected role has a button whose \<^verbatim>\<open>onPress\<close> is omitted, the callback returns and
  invokes nothing: on Android and Windows it has no effect at all, on Tizen it has
  written its \<^verbatim>\<open>console.log\<close> lines.
\<close>

theorem C4_resultCallback_throws_iff_unassigned_or_onPress_throws:
  fixes dm :: "('a, 'k) DialogModule" and buttons :: "'f Buttons option"
    and title message :: "string option" and action :: 'a and key :: 'k
  assumes "AlertAndroid_buttons buttons = (neuA, negA, posA)"
    and "AlertWindows_buttons buttons = (negW, posW)"
    and "AlertTizen_buttons buttons = (neuT, negT, posT)"
  defines "RA \<equiv> resultCallback (AlertAndroid_alert dm title message buttons) action key"
    and "RW \<equiv> resultCallback (AlertWindows_alert dm title message buttons) action key"
    and "RT \<equiv> resultCallback (AlertTizen_alert dm title message buttons) action key"
  shows "\<not> throws (Alert_alert Platform_OS modules title message buttons type)
    \<and> Alert_alert ''android'' modules title message buttons type
        = Returns [DialogModuleAndroid_showAlert
            (AlertAndroid_alert (DialogManagerAndroid modules) title message buttons)]
    \<and> Alert_alert ''windows'' modules title message buttons type
        = Returns [DialogModuleWindows_showAlert
            (AlertWindows_alert (DialogManagerWindows modules) title message buttons)]
    \<and> Alert_alert ''tizen'' modules title message buttons type
        = Returns [DialogModuleTizen_showAlert
            (AlertTizen_alert (DialogManagerTizen modules) title message buttons)]
    \<and> \<not> throws (errorCallback (AlertAndroid_alert dm title message buttons) errorMessage)
    \<and> \<not> throws (errorCallback (AlertWindows_alert dm title message buttons) errorMessage)
    \<and> \<not> throws (errorCallback (AlertTizen_alert dm title message buttons) errorMessage)
    \<and> (throws RA \<longleftrightarrow>
            action = buttonClicked dm
            \<and> (key = buttonNeutral dm \<and> (neuA = None \<or> onPress_throws neuA)
               \<or> key \<noteq> buttonNeutral dm \<and> key = buttonNegative dm
                  \<and> (negA = None \<or> onPress_throws negA)
               \<or> key \<noteq> buttonNeutral dm \<and> key \<noteq> buttonNegative dm
                  \<and> key = buttonPositive dm \<and> (posA = None \<or> onPress_throws posA)))
    \<and> (throws RW \<longleftrightarrow>
            action = buttonClicked dm
            \<and> (key = buttonNegative dm \<and> (negW = None \<or> onPress_throws negW)
               \<or> key \<noteq> buttonNegative dm \<and> key = buttonPositive dm
                  \<and> (posW = None \<or> onPress_throws posW)))
    \<and> (throws RT \<longleftrightarrow>
            action = buttonClicked dm
            \<and> (key = buttonNeutral dm \<and> (neuT = None \<or> onPress_throws neuT)
               \<or> key \<noteq> buttonNeutral dm \<and> key = buttonNegative dm
                  \<and> (negT = None \<or> onPress_throws negT)
               \<or> key \<noteq> buttonNeutral dm \<and> key \<noteq> buttonNegative dm
                  \<and> key = buttonPositive dm \<and> (posT = None \<or> onPress_throws posT)))
    \<and> (action = buttonClicked dm \<and> key = buttonNeutral dm \<and> omits_onPress neuA \<longrightarrow>
          RA = Returns [])
    \<and> (action = buttonClicked dm \<and> key \<noteq> buttonNeutral dm \<and> key = buttonNegative dm
          \<and> omits_onPress negA \<longrightarrow> RA = Returns [])
    \<and> (action = buttonClicked dm \<and> key \<noteq> buttonNeutral dm \<and> key \<noteq> buttonNegative dm
          \<and> key = buttonPositive dm \<and> omits_onPress posA \<longrightarrow> RA = Returns [])
    \<and> (action = buttonClicked dm \<and> key = buttonNegative dm \<and> omits_onPress negW \<longrightarrow>
          RW = Returns [])
    \<and> (action = buttonClicked dm \<and> key \<noteq> buttonNegative dm \<and> key = buttonPositive dm
          \<and> omits_onPress posW \<longrightarrow> RW = Returns [])
    \<and> (action = buttonClicked dm \<and> key = buttonNeutral dm \<and> omits_onPress neuT \<longrightarrow>
          \<not> throws RT \<and> onPress_calls RT = [])
    \<and> (action = buttonClicked dm \<and> key \<noteq> buttonNeutral dm \<and> key = buttonNegative dm
          \<and> omits_onPress negT \<longrightarrow> \<not> throws RT \<and> onPress_calls RT = [])
    \<and> (action = buttonClicked dm \<and> key \<noteq> buttonNeutral dm \<and> key \<noteq> buttonNegative dm
          \<and> key = buttonPositive dm \<and> omits_onPress posT \<longrightarrow>
          \<not> throws RT \<and> onPress_calls RT = [])"
proof -
  note RA = RA_def [unfolded AlertAndroid_resultCallback [OF assms(1)]]
  note RW = RW_def [unfolded AlertWindows_resultCallback [OF assms(2)]]
  note RT = RT_def [unfolded AlertTizen_resultCallback [OF assms(3)]]
  have disp: "\<not> throws (Alert_alert Platform_OS modules title message buttons type)"
    by (simp add: Alert_alert_def split: option.splits)
  have body:
    "Alert_alert ''android'' modules title message buttons type
        = Returns [DialogModuleAndroid_showAlert
            (AlertAndroid_alert (DialogManagerAndroid modules) title message buttons)]"
    "Alert_alert ''windows'' modules title message buttons type
        = Returns [DialogModuleWindows_showAlert
            (AlertWindows_alert (DialogManagerWindows modules) title message buttons)]"
    "Alert_alert ''tizen'' modules title message buttons type
        = Returns [DialogModuleTizen_showAlert
            (AlertTizen_alert (DialogManagerTizen modules) title message buttons)]"
    by (simp_all add: Alert_alert_def)
  have errA: "\<not> throws (errorCallback (AlertAndroid_alert dm title message buttons) errorMessage)"
    by (simp add: AlertAndroid_alert_def Let_def split: prod.splits)
  have errW: "\<not> throws (errorCallback (AlertWindows_alert dm title message buttons) errorMessage)"
    by (simp add: AlertWindows_alert_def Let_def split: prod.splits)
  have errT: "\<not> throws (errorCallback (AlertTizen_alert dm title message buttons) errorMessage)"
    by (simp add: AlertTizen_alert_def Let_def split: prod.splits)
  have thA: "throws RA \<longleftrightarrow>
            action = buttonClicked dm
            \<and> (key = buttonNeutral dm \<and> (neuA = None \<or> onPress_throws neuA)
               \<or> key \<noteq> buttonNeutral dm \<and> key = buttonNegative dm
                  \<and> (negA = None \<or> onPress_throws negA)
               \<or> key \<noteq> buttonNeutral dm \<and> key \<noteq> buttonNegative dm
                  \<and> key = buttonPositive dm \<and> (posA = None \<or> onPress_throws posA))"
    by (simp add: RA throws_onPress_and_call)
  have thW: "throws RW \<longleftrightarrow>
            action = buttonClicked dm
            \<and> (key = buttonNegative dm \<and> (negW = None \<or> onPress_throws negW)
               \<or> key \<noteq> buttonNegative dm \<and> key = buttonPositive dm
                  \<and> (posW = None \<or> onPress_throws posW))"
    by (simp add: RW throws_onPress_and_call)
  have thT: "throws RT \<longleftrightarrow>
            action = buttonClicked dm
            \<and> (key = buttonNeutral dm \<and> (neuT = None \<or> onPress_throws neuT)
               \<or> key \<noteq> buttonNeutral dm \<and> key = buttonNegative dm
                  \<and> (negT = None \<or> onPress_throws negT)
               \<or> key \<noteq> buttonNeutral dm \<and> key \<noteq> buttonNegative dm
                  \<and> key = buttonPositive dm \<and> (posT = None \<or> onPress_throws posT))"
    by (simp add: RT throws_after throws_onPress_and_call)
  have omA:
    "action = buttonClicked dm \<and> key = buttonNeutral dm \<and> omits_onPress neuA \<longrightarrow>
          RA = Returns []"
    "action = buttonClicked dm \<and> key \<noteq> buttonNeutral dm \<and> key = buttonNegative dm
          \<and> omits_onPress negA \<longrightarrow> RA = Returns []"
    "action = buttonClicked dm \<and> key \<noteq> buttonNeutral dm \<and> key \<noteq> buttonNegative dm
          \<and> key = buttonPositive dm \<and> omits_onPress posA \<longrightarrow> RA = Returns []"
    by (auto simp add: RA onPress_and_call_omits)
  have omW:
    "action = buttonClicked dm \<and> key = buttonNegative dm \<and> omits_onPress negW \<longrightarrow>
          RW = Returns []"
    "action = buttonClicked dm \<and> key \<noteq> buttonNegative dm \<and> key = buttonPositive dm
          \<and> omits_onPress posW \<longrightarrow> RW = Returns []"
    by (auto simp add: RW onPress_and_call_omits)
  have omT:
    "action = buttonClicked dm \<and> key = buttonNeutral dm \<and> omits_onPress neuT \<longrightarrow>
          \<not> throws RT \<and> onPress_calls RT = []"
    "action = buttonClicked dm \<and> key \<noteq> buttonNeutral dm \<and> key = buttonNegative dm
          \<and> omits_onPress negT \<longrightarrow> \<not> throws RT \<and> onPress_calls RT = []"
    "action = buttonClicked dm \<and> key \<noteq> buttonNeutral dm \<and> key \<noteq> buttonNegative dm
          \<and> key = buttonPositive dm \<and> omits_onPress posT \<longrightarrow>
          \<not> throws RT \<and> onPress_calls RT = []"
    by (auto simp add: RT throws_after onPress_calls_after onPress_and_call_omits)
  show ?thesis
    using disp body errA errW errT thA thW thT omA omW omT by blast
qed

text \<open>
  One button without \<^verbatim>\<open>onPress\<close>: a click on the positive role returns on every
  adapter, with no effect on Android and Windows, and a click on the neutral role,
  which has no button, throws on Android. One button whose \<^verbatim>\<open>onPress\<close> throws: a
  click on the positive role throws. The dispatcher on Android and the error callback
  return.
\<close>

theorem C4_resultCallback_witness:
  "resultCallback (AlertAndroid_alert example_module (Some ''Title'') (Some ''Msg'')
       (Some [\<lparr>text = Some ''OK'', onPress = None :: nat js_function option, style = None\<rparr>]))
       ''buttonClicked'' (- 1) = Returns []
   \<and> resultCallback (AlertWindows_alert example_module (Some ''Title'') (Some ''Msg'')
       (Some [\<lparr>text = Some ''OK'', onPress = None :: nat js_function option, style = None\<rparr>]))
       ''buttonClicked'' (- 1) = Returns []
   \<and> \<not> throws (resultCallback (AlertTizen_alert example_module (Some ''Title'') (Some ''Msg'')
       (Some [\<lparr>text = Some ''OK'', onPress = None :: nat js_function option, style = None\<rparr>]))
       ''buttonClicked'' (- 1))
   \<and> throws (resultCallback (AlertAndroid_alert example_module (Some ''Title'') (Some ''Msg'')
       (Some [\<lparr>text = Some ''OK'', onPress = None :: nat js_function option, style = None\<rparr>]))
       ''buttonClicked'' (- 3))
   \<and> throws (resultCallback (AlertAndroid_alert example_module (Some ''Title'') (Some ''Msg'')
       (Some [\<lparr>text = Some ''OK'', onPress = Some (fn_throws (1 :: nat)), style = None\<rparr>]))
       ''buttonClicked'' (- 1))
   \<and> \<not> throws (errorCallback (AlertAndroid_alert example_module (Some ''Title'') (Some ''Msg'')
       (Some [\<lparr>text = Some ''OK'', onPress = Some (fn_throws (1 :: nat)), style = None\<rparr>]))
       ''boom'')
   \<and> \<not> throws (Alert_alert ''android''
        \<lparr>DialogManagerAndroid = example_module, DialogManagerWindows = example_module,
         DialogManagerTizen = example_module\<rparr>
        (Some ''Title'') (Some ''Msg'')
        (Some [\<lparr>text = Some ''OK'', onPress = Some (fn_throws (1 :: nat)), style = None\<rparr>])
        (None :: unit option))"
proof -
  let ?b = "\<lparr>text = Some ''OK'', onPress = None :: nat js_function option, style = None\<rparr>"
  let ?t = "\<lparr>text = Some ''OK'', onPress = Some (fn_throws (1 :: nat)), style = None\<rparr>"
  let ?m = "\<lparr>DialogManagerAndroid = example_module, DialogManagerWindows = example_module,
         DialogManagerTizen = example_module\<rparr>"
  have A: "AlertAndroid_buttons (Some [?b]) = (None, None, Some ?b)"
    by (simp add: AlertAndroid_buttons_simps)
  have W: "AlertWindows_buttons (Some [?b]) = (None, Some ?b)"
    by (simp add: AlertWindows_buttons_simps)
  have T: "AlertTizen_buttons (Some [?b]) = (None, None, Some ?b)"
    by (simp add: AlertTizen_buttons_simps)
  have A': "AlertAndroid_buttons (Some [?t]) = (None, None, Some ?t)"
    by (simp add: AlertAndroid_buttons_simps)
  have W': "AlertWindows_buttons (Some [?t]) = (None, Some ?t)"
    by (simp add: AlertWindows_buttons_simps)
  have T': "AlertTizen_buttons (Some [?t]) = (None, None, Some ?t)"
    by (simp add: AlertTizen_buttons_simps)
  note c = C4_resultCallback_throws_iff_unassigned_or_onPress_throws [OF A W T,
      where dm = example_module and title = "Some ''Title''" and message = "Some ''Msg''"
        and errorMessage = "''boom''" and Platform_OS = "''android''" and modules = ?m
        and type = "None :: unit option" and action = "''buttonClicked''"]
  note d = C4_resultCallback_throws_iff_unassigned_or_onPress_throws [OF A' W' T',
      where dm = example_module and title = "Some ''Title''" and message = "Some ''Msg''"
        and errorMessage = "''boom''" and Platform_OS = "''android''" and modules = ?m
        and type = "None :: unit option" and action = "''buttonClicked''" and key = "- 1"]
  show ?thesis
    using c [where key = "- 1"] c [where key = "- 3"] d
    by (simp add: example_module_def omits_onPress_def onPress_throws_def)
qed

end
